theory Spec2Isabelle
  imports Complex_Main
begin

section \<open>Python values\<close>

text \<open>
  A Python \<^verbatim>\<open>str\<close> is a sequence of Unicode code points; \<open>ascii\<close> turns an
  ASCII literal into one.
\<close>

type_synonym pystr = "nat list"

definition ascii :: "string \<Rightarrow> pystr" where
  "ascii s = map of_char s"

text \<open>
  A Python \<^verbatim>\<open>float\<close>: a finite value by the number it denotes, the two
  infinities and NaN. The formatter only ever tests a float for truth.
\<close>

datatype pyfloat = Finite real | PosInf | NegInf | NaN

text \<open>
  The values \<^verbatim>\<open>response.json()\<close> can return and the values the request payload is
  built from. A \<^verbatim>\<open>dict\<close> keeps its insertion order; a parsed JSON object has string
  keys only.
\<close>

datatype pyval =
    PNone
  | PBool bool
  | PInt int
  | PFloat pyfloat
  | PStr pystr
  | PList "pyval list"
  | PDict "(pystr \<times> pyval) list"

text \<open>
  Exceptions. \<open>RequestException\<close> stands for every instance of
  \<^verbatim>\<open>requests.RequestException\<close> (ConnectionError, Timeout, InvalidURL, ...), named
  by its argument; \<open>OtherException\<close> for every exception of another class that is
  not one of the four built-in ones the formatter's own expressions raise.
\<close>

datatype pyexn =
    RequestException pystr
  | AttributeError
  | TypeError
  | IndexError
  | KeyError
  | OtherException pystr

fun is_RequestException :: "pyexn \<Rightarrow> bool" where
  "is_RequestException (RequestException _) = True"
| "is_RequestException _ = False"

text \<open>\<^verbatim>\<open>bool(v)\<close>, which \<^verbatim>\<open>not v\<close> negates.\<close>

fun truthy :: "pyval \<Rightarrow> bool" where
  "truthy PNone = False"
| "truthy (PBool b) = b"
| "truthy (PInt n) = (n \<noteq> 0)"
| "truthy (PFloat x) = (x \<noteq> Finite 0)"
| "truthy (PStr s) = (s \<noteq> [])"
| "truthy (PList xs) = (xs \<noteq> [])"
| "truthy (PDict d) = (d \<noteq> [])"

text \<open>An \<^verbatim>\<open>Optional[str]\<close> as a value, and as an f-string renders it.\<close>

fun of_opt :: "pystr option \<Rightarrow> pyval" where
  "of_opt None = PNone"
| "of_opt (Some s) = PStr s"

fun fstr :: "pystr option \<Rightarrow> pystr" where
  "fstr None = ascii ''None''"
| "fstr (Some s) = s"

text \<open>
  \<^verbatim>\<open>str.isspace\<close> of one code point (CPython's table): the characters
  \<^verbatim>\<open>str.strip()\<close> removes.
\<close>

definition isspace :: "nat \<Rightarrow> bool" where
  "isspace c =
     ((9 \<le> c \<and> c \<le> 13) \<or> (28 \<le> c \<and> c \<le> 32) \<or> c = 133 \<or> c = 160 \<or> c = 5760 \<or>
      (8192 \<le> c \<and> c \<le> 8202) \<or> c = 8232 \<or> c = 8233 \<or> c = 8239 \<or> c = 8287 \<or>
      c = 12288)"

definition strip :: "pystr \<Rightarrow> pystr" where
  "strip s = rev (dropWhile isspace (rev (dropWhile isspace s)))"

text \<open>\<^verbatim>\<open>s.rstrip(chars)\<close>: every trailing character that is in \<open>chars\<close> goes.\<close>

definition rstrip :: "pystr \<Rightarrow> pystr \<Rightarrow> pystr" where
  "rstrip chars s = rev (dropWhile (\<lambda>c. c \<in> set chars) (rev s))"

text \<open>
  \<^verbatim>\<open>v.get(key, default)\<close>: only a dict has the method; a key that is present
  gives its value, whatever it is.
\<close>

fun dict_get :: "pyval \<Rightarrow> pystr \<Rightarrow> pyval \<Rightarrow> pyexn + pyval" where
  "dict_get (PDict d) k dflt = Inr (case map_of d k of None \<Rightarrow> dflt | Some v \<Rightarrow> v)"
| "dict_get _ k dflt = Inl AttributeError"

text \<open>
  \<^verbatim>\<open>v[0]\<close>: the first element of a list or string, IndexError on an empty one;
  KeyError on a dict (its keys are strings, \<open>0\<close> is none of them); TypeError on what
  cannot be subscripted.
\<close>

fun getitem0 :: "pyval \<Rightarrow> pyexn + pyval" where
  "getitem0 (PList []) = Inl IndexError"
| "getitem0 (PList (x # xs)) = Inr x"
| "getitem0 (PStr []) = Inl IndexError"
| "getitem0 (PStr (c # cs)) = Inr (PStr [c])"
| "getitem0 (PDict d) = Inl KeyError"
| "getitem0 _ = Inl TypeError"

text \<open>\<^verbatim>\<open>v.strip()\<close>: only a string has the method.\<close>

fun py_strip :: "pyval \<Rightarrow> pyexn + pystr" where
  "py_strip (PStr s) = Inr (strip s)"
| "py_strip _ = Inl AttributeError"

section \<open>The formatter and what surrounds it\<close>

text \<open>The configuration object, by what its seven getters return.\<close>

record config =
  gpt_enabled :: pyval
  gpt_api_key :: "pystr option"
  gpt_api_base :: "pystr option"
  gpt_model :: "pystr option"
  gpt_temperature :: pyval
  gpt_system_prompt :: "pystr option"
  gpt_timeout_seconds :: pyval

text \<open>The attributes of a \<^verbatim>\<open>GPTExposeFormatter\<close> (\<^verbatim>\<open>self._enabled\<close>, ...).\<close>

record formatter =
  self_enabled :: bool
  self_api_key :: "pystr option"
  self_api_base :: "pystr option"
  self_model :: "pystr option"
  self_temperature :: pyval
  self_system_prompt :: "pystr option"
  self_timeout :: pyval

definition init :: "config \<Rightarrow> formatter" where
  "init cfg =
     \<lparr>self_enabled = truthy (gpt_enabled cfg),
      self_api_key = gpt_api_key cfg,
      self_api_base = gpt_api_base cfg,
      self_model = gpt_model cfg,
      self_temperature = gpt_temperature cfg,
      self_system_prompt = gpt_system_prompt cfg,
      self_timeout = gpt_timeout_seconds cfg\<rparr>"

text \<open>The arguments of the one \<^verbatim>\<open>requests.post\<close> call, and the response read back.\<close>

record request =
  url :: pystr
  json :: pyval
  headers :: "(pystr \<times> pystr) list"
  timeout :: pyval

record response =
  status_code :: int
  response_text :: pystr
  response_json :: "pyexn + pyval"

text \<open>
  The libraries the formatter calls, as parameters: \<^verbatim>\<open>json.dumps(obj, ensure_ascii=b)\<close>
  on an expose of any type \<open>'e\<close>, and \<^verbatim>\<open>requests.post\<close>, each returning or raising.
\<close>

record 'e env =
  json_dumps :: "bool \<Rightarrow> 'e \<Rightarrow> pyexn + pystr"
  requests_post :: "request \<Rightarrow> pyexn + response"

text \<open>
  What a call does besides returning: requests sent and warnings logged, in order. A
  warning has its format string, its arguments and the exception \<^verbatim>\<open>exc_info=True\<close>
  attaches.
\<close>

datatype event =
    HttpPost request
  | LogWarning pystr "pyval list" "pyexn option"

fun is_HttpPost :: "event \<Rightarrow> bool" where
  "is_HttpPost (HttpPost _) = True"
| "is_HttpPost _ = False"

fun is_LogWarning :: "event \<Rightarrow> bool" where
  "is_LogWarning (LogWarning _ _ _) = True"
| "is_LogWarning _ = False"

section \<open>\<^verbatim>\<open>_should_use_gpt\<close> and \<^verbatim>\<open>enabled\<close>\<close>

definition should_use_gpt :: "formatter \<Rightarrow> bool" where
  "should_use_gpt self =
     (self_enabled self \<and> truthy (of_opt (self_api_key self)) \<and> truthy (of_opt (self_model self)))"

definition enabled :: "formatter \<Rightarrow> bool" where
  "enabled self = should_use_gpt self"

section \<open>\<^verbatim>\<open>_build_payload\<close>\<close>

text \<open>The five string literals of the user message (source lines 70 to 74), by code point.\<close>

definition user_content_70 :: pystr where
  "user_content_70 =
     [1055, 1088, 1086, 1072, 1085, 1072, 1083, 1080, 1079, 1080, 1088, 1091, 1081, 32,
      1089, 1083, 1077, 1076, 1091, 1102, 1097, 1091, 1102, 32, 1080, 1085, 1092, 1086,
      1088, 1084, 1072, 1094, 1080, 1102, 32, 1086, 1073, 32, 1086, 1073, 1098, 1103,
      1074, 1083, 1077, 1085, 1080, 1080, 32, 1080, 32, 1089, 1086, 1089, 1090, 1072,
      1074, 1100, 32, 1082, 1088, 1072, 1090, 1082, 1080, 1081, 44, 32]"

definition user_content_71 :: pystr where
  "user_content_71 =
     [1095, 1105, 1090, 1082, 1080, 1081, 32, 1090, 1077, 1082, 1089, 1090, 32, 1085,
      1072, 32, 1088, 1091, 1089, 1089, 1082, 1086, 1084, 32, 1103, 1079, 1099, 1082,
      1077, 46, 32, 1057, 1076, 1077, 1083, 1072, 1081, 32, 1072, 1082, 1094, 1077,
      1085, 1090, 32, 1085, 1072, 32, 1082, 1083, 1102, 1095, 1077, 1074, 1099, 1093,
      32, 1074, 1099, 1075, 1086, 1076, 1072, 1093, 44, 32]"

definition user_content_72 :: pystr where
  "user_content_72 =
     [1091, 1082, 1072, 1078, 1080, 32, 1094, 1077, 1085, 1091, 44, 32, 1088, 1072,
      1081, 1086, 1085, 47, 1072, 1076, 1088, 1077, 1089, 44, 32, 1082, 1086, 1083,
      1080, 1095, 1077, 1089, 1090, 1074, 1086, 32, 1082, 1086, 1084, 1085, 1072, 1090,
      44, 32, 1087, 1083, 1086, 1097, 1072, 1076, 1100, 32, 1080, 32, 1076, 1086, 1073,
      1072, 1074, 1100, 32, 1089, 1089, 1099, 1083, 1082, 1091, 46, 32]"

definition user_content_73 :: pystr where
  "user_content_73 =
     [1054, 1090, 1074, 1077, 1090, 32, 1076, 1086, 1083, 1078, 1077, 1085, 32, 1079,
      1072, 1085, 1080, 1084, 1072, 1090, 1100, 32, 1085, 1077, 32, 1073, 1086, 1083,
      1077, 1077, 32, 54, 45, 55, 32, 1087, 1088, 1077, 1076, 1083, 1086, 1078, 1077,
      1085, 1080, 1081, 46, 10, 10]"

definition user_content_74 :: pystr where
  "user_content_74 =
     [1044, 1072, 1085, 1085, 1099, 1077, 32, 1086, 1073, 1098, 1103, 1074, 1083, 1077,
      1085, 1080, 1103, 32, 40, 74, 83, 79, 78, 41, 58, 10]"

definition build_payload :: "formatter \<Rightarrow> 'e env \<Rightarrow> 'e \<Rightarrow> pyexn + pyval" where
  "build_payload self env expose =
     (case json_dumps env False expose of
        Inl e \<Rightarrow> Inl e
      | Inr dumped \<Rightarrow>
          let user_content =
                user_content_70 @ user_content_71 @ user_content_72 @ user_content_73 @
                user_content_74 @ dumped;
              messages =
                [PDict [(ascii ''role'', PStr (ascii ''system'')),
                        (ascii ''content'', of_opt (self_system_prompt self))],
                 PDict [(ascii ''role'', PStr (ascii ''user'')),
                        (ascii ''content'', PStr user_content)]]
          in Inr (PDict [(ascii ''model'', of_opt (self_model self)),
                         (ascii ''temperature'', self_temperature self),
                         (ascii ''messages'', PList messages)]))"

section \<open>\<^verbatim>\<open>format\<close>\<close>

text \<open>Source lines 36 to 41: the payload, the headers and the URL of the request.\<close>

definition format_request :: "formatter \<Rightarrow> 'e env \<Rightarrow> 'e \<Rightarrow> pyexn + request" where
  "format_request self env expose =
     (case build_payload self env expose of
        Inl e \<Rightarrow> Inl e
      | Inr payload \<Rightarrow>
          let hdrs = [(ascii ''Authorization'', ascii ''Bearer '' @ fstr (self_api_key self)),
                      (ascii ''Content-Type'', ascii ''application/json'')]
          in (case self_api_base self of
                None \<Rightarrow> Inl AttributeError
              | Some base \<Rightarrow>
                  Inr \<lparr>url = rstrip (ascii ''/'') base @ ascii ''/chat/completions'',
                       json = payload, headers = hdrs, timeout = self_timeout self\<rparr>))"

text \<open>
  Source lines 52 to 56:
  \<^verbatim>\<open>data.get("choices", [{}])[0].get("message", {}).get("content")\<close>.
\<close>

definition extract_message :: "pyval \<Rightarrow> pyexn + pyval" where
  "extract_message data =
     (case dict_get data (ascii ''choices'') (PList [PDict []]) of
        Inl e \<Rightarrow> Inl e
      | Inr choices \<Rightarrow>
          (case getitem0 choices of
             Inl e \<Rightarrow> Inl e
           | Inr choice \<Rightarrow>
               (case dict_get choice (ascii ''message'') (PDict []) of
                  Inl e \<Rightarrow> Inl e
                | Inr msg \<Rightarrow> dict_get msg (ascii ''content'') PNone)))"

text \<open>Source lines 43 to 60: what is made of the response, with the warnings logged.\<close>

definition format_response :: "response \<Rightarrow> pystr \<Rightarrow> (pyexn + pystr) \<times> event list" where
  "format_response resp fallback =
     (if status_code resp \<noteq> 200 then
        (Inr fallback,
         [LogWarning (ascii ''GPT API returned %s: %s'')
            [PInt (status_code resp), PStr (response_text resp)] None])
      else
        (case response_json resp of
           Inl e \<Rightarrow> (Inl e, [])
         | Inr data \<Rightarrow>
             (case extract_message data of
                Inl e \<Rightarrow> (Inl e, [])
              | Inr message \<Rightarrow>
                  if \<not> truthy message then
                    (Inr fallback,
                     [LogWarning
                        (ascii ''GPT API response missing content, falling back to default message'')
                        [] None])
                  else
                    (case py_strip message of
                       Inl e \<Rightarrow> (Inl e, [])
                     | Inr s \<Rightarrow> (Inr s, [])))))"

text \<open>The body of the \<^verbatim>\<open>try\<close> (source lines 36 to 60).\<close>

definition format_try ::
  "formatter \<Rightarrow> 'e env \<Rightarrow> 'e \<Rightarrow> pystr \<Rightarrow> (pyexn + pystr) \<times> event list" where
  "format_try self env expose fallback =
     (case format_request self env expose of
        Inl e \<Rightarrow> (Inl e, [])
      | Inr req \<Rightarrow>
          (case requests_post env req of
             Inl e \<Rightarrow> (Inl e, [HttpPost req])
           | Inr resp \<Rightarrow>
               (case format_response resp fallback of
                  (r, logged) \<Rightarrow> (r, HttpPost req # logged))))"

text \<open>
  \<^verbatim>\<open>format\<close>: \<open>Inr\<close> the string returned, \<open>Inl\<close> the exception that reaches the
  caller, with the events of the call. The \<^verbatim>\<open>except\<close> clause takes an exception
  of the \<^verbatim>\<open>try\<close> body if and only if it is a \<^verbatim>\<open>requests.RequestException\<close>.
\<close>

definition format ::
  "formatter \<Rightarrow> 'e env \<Rightarrow> 'e \<Rightarrow> pystr \<Rightarrow> (pyexn + pystr) \<times> event list" where
  "format self env expose fallback =
     (if \<not> should_use_gpt self then (Inr fallback, [])
      else
        (case format_try self env expose fallback of
           (Inl e, evs) \<Rightarrow>
             if is_RequestException e then
               (Inr fallback,
                evs @ [LogWarning
                         (ascii ''Error while calling GPT API, falling back to default message'')
                         [] (Some e)])
             else (Inl e, evs)
         | (Inr s, evs) \<Rightarrow> (Inr s, evs)))"

section \<open>Example data\<close>

text \<open>
  A configured formatter, the expose \<^verbatim>\<open>{"price": 1000, "rooms": 2}\<close> with its
  serialization, and an environment whose remote call has the given outcome.
\<close>

definition example_formatter :: formatter where
  "example_formatter =
     \<lparr>self_enabled = True,
      self_api_key = Some (ascii ''sk-test''),
      self_api_base = Some (ascii ''https://api.openai.com/v1/''),
      self_model = Some (ascii ''gpt-4o-mini''),
      self_temperature = PFloat (Finite (1 / 2)),
      self_system_prompt = Some (ascii ''S''),
      self_timeout = PInt 30\<rparr>"

definition example_expose :: pyval where
  "example_expose = PDict [(ascii ''price'', PInt 1000), (ascii ''rooms'', PInt 2)]"

definition example_dumped :: pystr where
  \<open>example_dumped = ascii ''{"price": 1000, "rooms": 2}''\<close>

definition example_env :: "(pyexn + response) \<Rightarrow> pyval env" where
  "example_env outcome =
     \<lparr>json_dumps = (\<lambda>ensure_ascii obj.
        if \<not> ensure_ascii \<and> obj = example_expose then Inr example_dumped
        else Inl (OtherException (ascii ''not in the example''))),
      requests_post = (\<lambda>req. outcome)\<rparr>"

definition example_payload :: pyval where
  "example_payload =
     PDict [(ascii ''model'', PStr (ascii ''gpt-4o-mini'')),
            (ascii ''temperature'', PFloat (Finite (1 / 2))),
            (ascii ''messages'',
             PList [PDict [(ascii ''role'', PStr (ascii ''system'')),
                           (ascii ''content'', PStr (ascii ''S''))],
                    PDict [(ascii ''role'', PStr (ascii ''user'')),
                           (ascii ''content'',
                            PStr (user_content_70 @ user_content_71 @ user_content_72 @
                                  user_content_73 @ user_content_74 @ example_dumped))]])]"

definition example_request :: request where
  "example_request =
     \<lparr>url = ascii ''https://api.openai.com/v1/chat/completions'',
      json = example_payload,
      headers = [(ascii ''Authorization'', ascii ''Bearer sk-test''),
                 (ascii ''Content-Type'', ascii ''application/json'')],
      timeout = PInt 30\<rparr>"

text \<open>A second environment: it answers like the first only where the example asks.\<close>

definition example_env_again :: "(pyexn + response) \<Rightarrow> pyval env" where
  "example_env_again outcome =
     \<lparr>json_dumps = (\<lambda>ensure_ascii obj.
        if ensure_ascii then Inl TypeError else json_dumps (example_env outcome) False obj),
      requests_post = (\<lambda>req.
        if req = example_request then outcome
        else Inl (RequestException (ascii ''ConnectionError'')))\<rparr>"

text \<open>Responses: status 200 with a body of the given parsed JSON, and a status 500.\<close>

definition ok_response :: "pystr \<Rightarrow> pyval \<Rightarrow> response" where
  "ok_response body parsed =
     \<lparr>status_code = 200, response_text = body, response_json = Inr parsed\<rparr>"

definition great_flat_response :: response where
  \<open>great_flat_response =
     ok_response (ascii ''{"choices":[{"message":{"content":" Great flat! "}}]}'')
       (PDict [(ascii ''choices'',
          PList [PDict [(ascii ''message'',
            PDict [(ascii ''content'', PStr (ascii '' Great flat! ''))])]])])\<close>


definition empty_choices_response :: response where
  \<open>empty_choices_response =
     ok_response (ascii ''{"choices":[]}'') (PDict [(ascii ''choices'', PList [])])\<close>

definition server_error_response :: response where
  "server_error_response =
     \<lparr>status_code = 500, response_text = ascii ''Internal Server Error'',
      response_json = Inl (RequestException (ascii ''JSONDecodeError''))\<rparr>"

text \<open>
  A formatter whose configured base URL is the empty string, the request it builds, and
  an environment in which \<^verbatim>\<open>requests.post\<close> refuses a URL that has no scheme, as
  the library does, with its \<^verbatim>\<open>MissingSchema\<close> (a \<^verbatim>\<open>RequestException\<close>).
\<close>

definition empty_base_formatter :: formatter where
  "empty_base_formatter = example_formatter\<lparr>self_api_base := Some []\<rparr>"

definition schemeless_request :: request where
  "schemeless_request = example_request\<lparr>url := ascii ''/chat/completions''\<rparr>"

definition schemeless_env :: "pyval env" where
  "schemeless_env =
     \<lparr>json_dumps = json_dumps (example_env (Inr great_flat_response)),
      requests_post = (\<lambda>req.
        if take 7 (url req) = ascii ''http://'' \<or> take 8 (url req) = ascii ''https://''
        then Inr great_flat_response
        else Inl (RequestException (ascii ''MissingSchema'')))\<rparr>"

section \<open>Properties of the string operations\<close>

lemma strip_suffix: "\<exists>r. dropWhile isspace s = strip s @ r \<and> list_all isspace r"
proof -
  let ?t = "dropWhile isspace s"
  have b: "rev ?t = takeWhile isspace (rev ?t) @ dropWhile isspace (rev ?t)" by simp
  have "?t = rev (dropWhile isspace (rev ?t)) @ rev (takeWhile isspace (rev ?t))"
    using arg_cong [OF b, of rev] by (simp only: rev_append rev_rev_ident)
  then have c: "?t = strip s @ rev (takeWhile isspace (rev ?t))"
    by (simp add: strip_def)
  have r: "list_all isspace (rev (takeWhile isspace (rev ?t)))"
    by (simp add: list_all_iff) (meson set_takeWhileD)
  from c r show ?thesis by blast
qed

text \<open>\<open>strip\<close> removes whitespace only, and only from the two ends.\<close>

lemma strip_decomp:
  "\<exists>l r. s = l @ strip s @ r \<and> list_all isspace l \<and> list_all isspace r"
proof -
  obtain r where r: "dropWhile isspace s = strip s @ r" "list_all isspace r"
    using strip_suffix by blast
  have l: "list_all isspace (takeWhile isspace s)"
    by (simp add: list_all_iff) (meson set_takeWhileD)
  have "s = takeWhile isspace s @ dropWhile isspace s" by simp
  with r have "s = takeWhile isspace s @ strip s @ r" by simp
  with l r(2) show ?thesis by blast
qed

text \<open>What \<open>strip\<close> leaves neither starts nor ends with whitespace.\<close>

lemma strip_ends:
  assumes "strip s \<noteq> []"
  shows "\<not> isspace (hd (strip s)) \<and> \<not> isspace (last (strip s))"
proof -
  let ?t = "dropWhile isspace s"
  obtain r where r: "?t = strip s @ r" using strip_suffix by blast
  with assms have "?t \<noteq> []" by simp
  then have "\<not> isspace (hd ?t)" by (rule hd_dropWhile)
  moreover from r assms have "hd ?t = hd (strip s)" by simp
  moreover
  from assms have ne: "dropWhile isspace (rev ?t) \<noteq> []" by (simp add: strip_def)
  then have "\<not> isspace (hd (dropWhile isspace (rev ?t)))" by (rule hd_dropWhile)
  moreover from ne have "last (strip s) = hd (dropWhile isspace (rev ?t))"
    by (simp add: strip_def last_rev)
  ultimately show ?thesis by simp
qed


section \<open>The gate\<close>

lemma should_use_gpt_iff:
  "should_use_gpt self \<longleftrightarrow>
     self_enabled self \<and> (\<exists>k. self_api_key self = Some k \<and> k \<noteq> []) \<and>
     (\<exists>m. self_model self = Some m \<and> m \<noteq> [])"
  by (cases "self_api_key self"; cases "self_model self") (simp_all add: should_use_gpt_def)

lemma enabled_init:
  "enabled (init cfg) \<longleftrightarrow>
     truthy (gpt_enabled cfg) \<and> (\<exists>k. gpt_api_key cfg = Some k \<and> k \<noteq> []) \<and>
     (\<exists>m. gpt_model cfg = Some m \<and> m \<noteq> [])"
  by (simp add: enabled_def should_use_gpt_iff init_def)

section \<open>The paths through \<open>format\<close>\<close>

lemma format_closed:
  "\<not> should_use_gpt self \<Longrightarrow> format self env expose fallback = (Inr fallback, [])"
  by (simp add: format_def)

text \<open>The request could not be built: nothing is sent.\<close>

lemma format_no_request:
  assumes "should_use_gpt self" and "format_request self env expose = Inl e"
  shows "format self env expose fallback =
    (if is_RequestException e then
       (Inr fallback,
        [LogWarning (ascii ''Error while calling GPT API, falling back to default message'')
           [] (Some e)])
     else (Inl e, []))"
  using assms by (simp add: format_def format_try_def)

text \<open>\<^verbatim>\<open>requests.post\<close> raises.\<close>

lemma format_post_raises:
  assumes "should_use_gpt self" and "format_request self env expose = Inr req"
    and "requests_post env req = Inl e"
  shows "format self env expose fallback =
    (if is_RequestException e then
       (Inr fallback,
        [HttpPost req,
         LogWarning (ascii ''Error while calling GPT API, falling back to default message'')
           [] (Some e)])
     else (Inl e, [HttpPost req]))"
  using assms by (simp add: format_def format_try_def)

text \<open>\<^verbatim>\<open>requests.post\<close> returns a response.\<close>

lemma format_post_returns:
  assumes "should_use_gpt self" and "format_request self env expose = Inr req"
    and "requests_post env req = Inr resp"
  shows "format self env expose fallback =
    (case format_response resp fallback of
       (Inl e, logged) \<Rightarrow>
         if is_RequestException e then
           (Inr fallback,
            HttpPost req # logged @
            [LogWarning (ascii ''Error while calling GPT API, falling back to default message'')
               [] (Some e)])
         else (Inl e, HttpPost req # logged)
     | (Inr s, logged) \<Rightarrow> (Inr s, HttpPost req # logged))"
  using assms by (simp add: format_def format_try_def split: prod.splits sum.splits)

text \<open>Status 200, a body that parses, and the chain of lookups raising an exception.\<close>

lemma format_extract_raises:
  assumes "should_use_gpt self" and "format_request self env expose = Inr req"
    and "requests_post env req = Inr resp" and "status_code resp = 200"
    and "response_json resp = Inr data" and "extract_message data = Inl e"
    and "\<not> is_RequestException e"
  shows "format self env expose fallback = (Inl e, [HttpPost req])"
  using assms by (simp add: format_post_returns format_response_def)

text \<open>Status 200, a body that parses, and the chain of lookups giving a value.\<close>

lemma format_extracted:
  assumes "should_use_gpt self" and "format_request self env expose = Inr req"
    and "requests_post env req = Inr resp" and "status_code resp = 200"
    and "response_json resp = Inr data" and "extract_message data = Inr message"
  shows "format self env expose fallback =
    (if \<not> truthy message then
       (Inr fallback,
        [HttpPost req,
         LogWarning
           (ascii ''GPT API response missing content, falling back to default message'')
           [] None])
     else
       (case py_strip message of
          Inl e \<Rightarrow> (Inl e, [HttpPost req])
        | Inr s \<Rightarrow> (Inr s, [HttpPost req])))"
proof (cases message)
  case (PStr s)
  with assms show ?thesis by (simp add: format_post_returns format_response_def)
qed (use assms in \<open>simp_all add: format_post_returns format_response_def\<close>)

section \<open>The lookups in the response body\<close>

lemma extract_message_path:
  assumes "map_of d (ascii ''choices'') = Some (PList (PDict c # cs))"
    and "map_of c (ascii ''message'') = Some (PDict m)"
  shows "extract_message (PDict d) =
    Inr (case map_of m (ascii ''content'') of None \<Rightarrow> PNone | Some v \<Rightarrow> v)"
  using assms by (simp add: extract_message_def)

text \<open>A key that is missing is made up for by the default of its \<^verbatim>\<open>get\<close>.\<close>

lemma extract_message_no_choices:
  "map_of d (ascii ''choices'') = None \<Longrightarrow> extract_message (PDict d) = Inr PNone"
  by (simp add: extract_message_def)

lemma extract_message_no_message:
  assumes "map_of d (ascii ''choices'') = Some (PList (PDict c # cs))"
    and "map_of c (ascii ''message'') = None"
  shows "extract_message (PDict d) = Inr PNone"
  using assms by (simp add: extract_message_def)

text \<open>A \<^verbatim>\<open>choices\<close> that is present and empty is not: \<^verbatim>\<open>[][0]\<close> raises.\<close>

lemma extract_message_empty_choices:
  "map_of d (ascii ''choices'') = Some (PList []) \<Longrightarrow> extract_message (PDict d) = Inl IndexError"
  by (simp add: extract_message_def)

section \<open>The request and the events of a call\<close>

lemma format_request_fields:
  assumes "format_request self env expose = Inr req"
  shows "build_payload self env expose = Inr (json req) \<and>
    (\<exists>base. self_api_base self = Some base \<and>
       url req = rstrip (ascii ''/'') base @ ascii ''/chat/completions'') \<and>
    headers req =
      [(ascii ''Authorization'', ascii ''Bearer '' @ fstr (self_api_key self)),
       (ascii ''Content-Type'', ascii ''application/json'')] \<and>
    timeout req = self_timeout self"
  using assms by (auto simp: format_request_def split: sum.splits option.splits)

lemma format_response_logs: "list_all is_LogWarning (snd (format_response resp fallback))"
  by (simp add: format_response_def split: sum.splits)

lemma format_events:
  assumes "should_use_gpt self"
  shows "\<exists>logs. list_all is_LogWarning logs \<and>
    snd (format self env expose fallback) =
      (case format_request self env expose of
         Inl e \<Rightarrow> logs
       | Inr req \<Rightarrow> HttpPost req # logs)"
proof (cases "format_request self env expose")
  case (Inl e)
  with assms show ?thesis by (simp add: format_no_request)
next
  case (Inr req)
  note req = this
  show ?thesis
  proof (cases "requests_post env req")
    case (Inl e)
    with assms req show ?thesis by (simp add: format_post_raises)
  next
    case (Inr resp)
    with assms req format_response_logs [of resp fallback] show ?thesis
      by (cases "format_response resp fallback")
         (auto simp: format_post_returns split: sum.splits)
  qed
qed

lemma filter_LogWarning: "list_all is_LogWarning logs \<Longrightarrow> filter is_HttpPost logs = []"
  by (induction logs) (auto elim: is_LogWarning.elims)

lemma LogWarning_no_post: "list_all is_LogWarning logs \<Longrightarrow> HttpPost r \<notin> set logs"
  by (induction logs) auto

section \<open>The example\<close>

lemma example_gate: "should_use_gpt example_formatter"
  by (simp add: should_use_gpt_def example_formatter_def ascii_def)

lemma example_dumps:
  "json_dumps (example_env outcome) False example_expose = Inr example_dumped"
  by (simp add: example_env_def)

lemma example_build_payload:
  "build_payload example_formatter (example_env outcome) example_expose = Inr example_payload"
  by (simp add: build_payload_def example_formatter_def example_env_def example_payload_def)

lemma example_format_request:
  "format_request example_formatter (example_env outcome) example_expose = Inr example_request"
  by (simp add: format_request_def example_build_payload)
     (simp add: example_formatter_def example_request_def rstrip_def ascii_def)

lemma example_post: "requests_post (example_env outcome) req = outcome"
  by (simp add: example_env_def)

lemma strip_great_flat: "strip (ascii '' Great flat! '') = ascii ''Great flat!''"
  by (simp add: strip_def ascii_def isspace_def)

section \<open>The claims\<close>

text \<open>
  Claim C1. If the gate is false (the enabled flag is false, or the API key is absent or
  empty, or the model name is absent or empty), \<open>format\<close> returns exactly the fallback;
  no request is sent and nothing is logged.
\<close>

theorem format_gate_false_returns_fallback:
  assumes "\<not> self_enabled self \<or>
    self_api_key self = None \<or> self_api_key self = Some [] \<or>
    self_model self = None \<or> self_model self = Some []"
  shows "format self env expose fallback = (Inr fallback, [])"
proof -
  from assms have "\<not> should_use_gpt self" by (auto simp: should_use_gpt_iff)
  then show ?thesis by (rule format_closed)
qed

theorem format_gate_false_witness:
  "format (example_formatter\<lparr>self_enabled := False\<rparr>)
     (example_env (Inr great_flat_response)) example_expose (ascii ''fallback'') =
     (Inr (ascii ''fallback''), []) \<and>
   format (example_formatter\<lparr>self_api_key := Some []\<rparr>)
     (example_env (Inr great_flat_response)) example_expose (ascii ''fallback'') =
     (Inr (ascii ''fallback''), []) \<and>
   format (example_formatter\<lparr>self_model := None\<rparr>)
     (example_env (Inr great_flat_response)) example_expose (ascii ''fallback'') =
     (Inr (ascii ''fallback''), [])"
  using
    format_gate_false_returns_fallback [of "example_formatter\<lparr>self_enabled := False\<rparr>"
      "example_env (Inr great_flat_response)" example_expose "ascii ''fallback''"]
    format_gate_false_returns_fallback [of "example_formatter\<lparr>self_api_key := Some []\<rparr>"
      "example_env (Inr great_flat_response)" example_expose "ascii ''fallback''"]
    format_gate_false_returns_fallback [of "example_formatter\<lparr>self_model := None\<rparr>"
      "example_env (Inr great_flat_response)" example_expose "ascii ''fallback''"]
  by simp

text \<open>
  Claim C2. If the gate is true and the remote call returns status 200 with a JSON body
  whose \<^verbatim>\<open>choices[0].message.content\<close> is a non-empty string \<open>s\<close>, \<open>format\<close> returns
  \<open>s\<close> with the whitespace at its two ends removed: what is removed is whitespace, and
  what is left neither starts nor ends with whitespace. One request is sent, nothing is
  logged.
\<close>

theorem format_success_returns_trimmed_content:
  assumes "should_use_gpt self"
    and "format_request self env expose = Inr req"
    and "requests_post env req = Inr resp"
    and "status_code resp = 200"
    and "response_json resp = Inr (PDict d)"
    and "map_of d (ascii ''choices'') = Some (PList (PDict c # cs))"
    and "map_of c (ascii ''message'') = Some (PDict m)"
    and "map_of m (ascii ''content'') = Some (PStr s)"
    and "s \<noteq> []"
  shows "format self env expose fallback = (Inr (strip s), [HttpPost req]) \<and>
    (\<exists>l r. s = l @ strip s @ r \<and> list_all isspace l \<and> list_all isspace r) \<and>
    (strip s = [] \<or> \<not> isspace (hd (strip s)) \<and> \<not> isspace (last (strip s)))"
proof -
  have "extract_message (PDict d) = Inr (PStr s)"
    using assms(6-8) by (simp add: extract_message_path)
  with assms(1-5,9) have "format self env expose fallback = (Inr (strip s), [HttpPost req])"
    by (simp add: format_extracted)
  with strip_decomp [of s] strip_ends [of s] show ?thesis by blast
qed

theorem format_great_flat_witness:
  "should_use_gpt example_formatter \<and>
   format example_formatter (example_env (Inr great_flat_response)) example_expose
     (ascii ''fallback'') =
   (Inr (ascii ''Great flat!''), [HttpPost example_request])"
proof -
  let ?m = "[(ascii ''content'', PStr (ascii '' Great flat! ''))]"
  let ?c = "[(ascii ''message'', PDict ?m)]"
  let ?d = "[(ascii ''choices'', PList [PDict ?c])]"
  have "format example_formatter (example_env (Inr great_flat_response)) example_expose
     (ascii ''fallback'') =
   (Inr (strip (ascii '' Great flat! '')), [HttpPost example_request])"
    using format_success_returns_trimmed_content [of example_formatter
        "example_env (Inr great_flat_response)" example_expose example_request
        great_flat_response ?d ?c "[]" ?m "ascii '' Great flat! ''" "ascii ''fallback''"]
    by (simp add: example_gate example_format_request example_post great_flat_response_def
        ok_response_def) (simp add: ascii_def)
  then show ?thesis by (simp add: example_gate strip_great_flat)
qed

text \<open>
  Claim C3. The claim: with the gate true and status 200, the body
  \<^verbatim>\<open>{"choices":[]}\<close> makes \<open>format\<close> return the fallback and raise nothing. The code:
  \<^verbatim>\<open>data.get("choices", [{}])\<close> finds the key and gives the empty list, \<^verbatim>\<open>[0]\<close> on it
  raises IndexError, which is no \<^verbatim>\<open>RequestException\<close> and so reaches the caller; no
  warning is logged.
\<close>

theorem format_empty_choices_raises:
  "format example_formatter (example_env (Inr empty_choices_response)) example_expose
     (ascii ''fallback'') =
   (Inl IndexError, [HttpPost example_request])"
proof -
  have "extract_message (PDict [(ascii ''choices'', PList [])]) = Inl IndexError"
    by (simp add: extract_message_empty_choices)
  then show ?thesis
    by (simp add: format_extract_raises [OF example_gate example_format_request example_post]
        empty_choices_response_def ok_response_def)
qed

text \<open>
  Claim C4, as amended. With the gate true, the \<^verbatim>\<open>except\<close> clause goes by the class
  of the exception, not by the kind of failure. An exception raised in the \<^verbatim>\<open>try\<close>
  body that is a \<^verbatim>\<open>requests.RequestException\<close> (a connection failure, a timeout, a
  DNS failure or a malformed transport response raised by the HTTP request, and just so
  an error the library raises for an unusable URL) is logged as a warning with the
  exception attached, and the fallback is returned: nothing reaches the caller. An
  exception of any other class raised there is not caught: it reaches the caller, and
  no warning is logged for it.
\<close>

theorem format_catches_only_request_exceptions:
  assumes "should_use_gpt self"
  shows "(\<forall>req e. format_request self env expose = Inr req \<and>
            requests_post env req = Inl e \<and> is_RequestException e \<longrightarrow>
          format self env expose fallback =
            (Inr fallback,
             [HttpPost req,
              LogWarning
                (ascii ''Error while calling GPT API, falling back to default message'')
                [] (Some e)])) \<and>
         (\<forall>e evs. format_try self env expose fallback = (Inl e, evs) \<and>
            is_RequestException e \<longrightarrow>
          format self env expose fallback =
            (Inr fallback,
             evs @
             [LogWarning
                (ascii ''Error while calling GPT API, falling back to default message'')
                [] (Some e)])) \<and>
         (\<forall>e evs. format_try self env expose fallback = (Inl e, evs) \<and>
            \<not> is_RequestException e \<longrightarrow>
          format self env expose fallback = (Inl e, evs)) \<and>
         (\<forall>req e. format_request self env expose = Inr req \<and>
            requests_post env req = Inl e \<and> \<not> is_RequestException e \<longrightarrow>
          format self env expose fallback = (Inl e, [HttpPost req])) \<and>
         (\<forall>payload. build_payload self env expose = Inr payload \<and>
            self_api_base self = None \<longrightarrow>
          format self env expose fallback = (Inl AttributeError, []))"
proof (intro conjI allI impI)
  fix req e
  assume "format_request self env expose = Inr req \<and> requests_post env req = Inl e \<and>
    is_RequestException e"
  with assms show "format self env expose fallback =
    (Inr fallback,
     [HttpPost req,
      LogWarning (ascii ''Error while calling GPT API, falling back to default message'')
        [] (Some e)])"
    by (simp add: format_post_raises)
next
  fix e evs
  assume "format_try self env expose fallback = (Inl e, evs) \<and> is_RequestException e"
  with assms show "format self env expose fallback =
    (Inr fallback,
     evs @
     [LogWarning (ascii ''Error while calling GPT API, falling back to default message'')
        [] (Some e)])"
    by (simp add: format_def)
next
  fix e evs
  assume "format_try self env expose fallback = (Inl e, evs) \<and> \<not> is_RequestException e"
  with assms show "format self env expose fallback = (Inl e, evs)"
    by (simp add: format_def)
next
  fix req e
  assume "format_request self env expose = Inr req \<and> requests_post env req = Inl e \<and>
    \<not> is_RequestException e"
  with assms show "format self env expose fallback = (Inl e, [HttpPost req])"
    by (simp add: format_post_raises)
next
  fix payload
  assume "build_payload self env expose = Inr payload \<and> self_api_base self = None"
  then have "format_request self env expose = Inl AttributeError"
    by (simp add: format_request_def)
  with assms show "format self env expose fallback = (Inl AttributeError, [])"
    by (simp add: format_no_request)
qed

theorem format_catches_only_request_exceptions_witness:
  "format example_formatter (example_env (Inl (RequestException (ascii ''ConnectTimeout''))))
     example_expose (ascii ''fallback'') =
   (Inr (ascii ''fallback''),
    [HttpPost example_request,
     LogWarning (ascii ''Error while calling GPT API, falling back to default message'') []
       (Some (RequestException (ascii ''ConnectTimeout'')))]) \<and>
   format example_formatter (example_env (Inl (OtherException (ascii ''KeyboardInterrupt''))))
     example_expose (ascii ''fallback'') =
   (Inl (OtherException (ascii ''KeyboardInterrupt'')), [HttpPost example_request]) \<and>
   format (example_formatter\<lparr>self_api_base := None\<rparr>)
     (example_env (Inr great_flat_response)) example_expose (ascii ''fallback'') =
   (Inl AttributeError, [])"
proof -
  let ?broken = "example_formatter\<lparr>self_api_base := None\<rparr>"
  have gate: "should_use_gpt ?broken"
    using example_gate by (simp add: should_use_gpt_def)
  have "build_payload ?broken (example_env (Inr great_flat_response)) example_expose =
    build_payload example_formatter (example_env (Inr great_flat_response)) example_expose"
    by (simp add: build_payload_def example_dumps)
  then have payload: "build_payload ?broken (example_env (Inr great_flat_response))
    example_expose = Inr example_payload"
    by (simp add: example_build_payload)
  show ?thesis
    using
      format_catches_only_request_exceptions [OF example_gate,
        of "example_env (Inl (RequestException (ascii ''ConnectTimeout'')))" example_expose
          "ascii ''fallback''"]
      format_catches_only_request_exceptions [OF example_gate,
        of "example_env (Inl (OtherException (ascii ''KeyboardInterrupt'')))" example_expose
          "ascii ''fallback''"]
      format_catches_only_request_exceptions [OF gate,
        of "example_env (Inr great_flat_response)" example_expose "ascii ''fallback''"]
      payload
    by (simp add: example_format_request example_post)
qed

text \<open>
  Claim C4 as it was stated has every error outside the network and transport kind
  reach the caller, an error from a malformed configuration being its example. With
  the base URL configured as the empty string the URL of the request is
  \<^verbatim>\<open>/chat/completions\<close>; \<^verbatim>\<open>requests.post\<close> raises \<^verbatim>\<open>MissingSchema\<close> for it,
  which is a \<^verbatim>\<open>RequestException\<close>: \<open>format\<close> catches it, logs the warning and
  returns the fallback, and the caller sees no exception.
\<close>

theorem format_swallows_configuration_error:
  "should_use_gpt empty_base_formatter \<and>
   format_request empty_base_formatter schemeless_env example_expose =
     Inr schemeless_request \<and>
   requests_post schemeless_env schemeless_request =
     Inl (RequestException (ascii ''MissingSchema'')) \<and>
   format empty_base_formatter schemeless_env example_expose (ascii ''fallback'') =
     (Inr (ascii ''fallback''),
      [HttpPost schemeless_request,
       LogWarning (ascii ''Error while calling GPT API, falling back to default message'') []
         (Some (RequestException (ascii ''MissingSchema'')))]) \<and>
   fst (format empty_base_formatter schemeless_env example_expose (ascii ''fallback'')) \<noteq>
     Inl (RequestException (ascii ''MissingSchema''))"
proof -
  have gate: "should_use_gpt empty_base_formatter"
    using example_gate by (simp add: should_use_gpt_def empty_base_formatter_def)
  have dumps: "json_dumps schemeless_env False example_expose = Inr example_dumped"
    by (simp add: schemeless_env_def example_dumps)
  have payload: "build_payload empty_base_formatter schemeless_env example_expose =
    Inr example_payload"
    by (simp add: build_payload_def dumps)
       (simp add: empty_base_formatter_def example_formatter_def example_payload_def)
  have req: "format_request empty_base_formatter schemeless_env example_expose =
    Inr schemeless_request"
    by (simp add: format_request_def payload)
       (simp add: empty_base_formatter_def example_formatter_def schemeless_request_def
          example_request_def rstrip_def ascii_def)
  have post: "requests_post schemeless_env schemeless_request =
    Inl (RequestException (ascii ''MissingSchema''))"
    by (simp add: schemeless_env_def schemeless_request_def example_request_def ascii_def)
  have "format empty_base_formatter schemeless_env example_expose (ascii ''fallback'') =
     (Inr (ascii ''fallback''),
      [HttpPost schemeless_request,
       LogWarning (ascii ''Error while calling GPT API, falling back to default message'') []
         (Some (RequestException (ascii ''MissingSchema'')))])"
    by (simp add: format_post_raises [OF gate req post])
  with gate req post show ?thesis by simp
qed

text \<open>
  Claim C5. With the gate true, a response whose status code is not 200 makes \<open>format\<close>
  log one warning, with the status code and the response body as its arguments, and
  return the fallback; the request is the only one sent.
\<close>

theorem format_http_error_status:
  assumes "should_use_gpt self"
    and "format_request self env expose = Inr req"
    and "requests_post env req = Inr resp"
    and "status_code resp \<noteq> 200"
  shows "format self env expose fallback =
    (Inr fallback,
     [HttpPost req,
      LogWarning (ascii ''GPT API returned %s: %s'')
        [PInt (status_code resp), PStr (response_text resp)] None])"
  using assms by (simp add: format_post_returns format_response_def)

theorem format_http_error_status_witness:
  "format example_formatter (example_env (Inr server_error_response)) example_expose
     (ascii ''fallback'') =
   (Inr (ascii ''fallback''),
    [HttpPost example_request,
     LogWarning (ascii ''GPT API returned %s: %s'')
       [PInt 500, PStr (ascii ''Internal Server Error'')] None])"
  using format_http_error_status [OF example_gate example_format_request example_post,
    of server_error_response "ascii ''fallback''"]
  by (simp add: server_error_response_def)

text \<open>
  Claim C6. When the expose serializes, the payload built has exactly the fields
  \<^verbatim>\<open>model\<close>, \<^verbatim>\<open>temperature\<close> and \<^verbatim>\<open>messages\<close>, with the configured model and
  temperature; \<^verbatim>\<open>messages\<close> has exactly two entries, the system message with the
  configured system prompt as it is, then the user message, whose content ends with
  \<^verbatim>\<open>json.dumps(expose, ensure_ascii=False)\<close>.
\<close>

theorem build_payload_shape:
  assumes "json_dumps env False expose = Inr dumped"
  shows "\<exists>instruction. build_payload self env expose =
    Inr (PDict
      [(ascii ''model'', of_opt (self_model self)),
       (ascii ''temperature'', self_temperature self),
       (ascii ''messages'',
        PList [PDict [(ascii ''role'', PStr (ascii ''system'')),
                      (ascii ''content'', of_opt (self_system_prompt self))],
               PDict [(ascii ''role'', PStr (ascii ''user'')),
                      (ascii ''content'', PStr (instruction @ dumped))]])])"
proof -
  have "build_payload self env expose =
    Inr (PDict
      [(ascii ''model'', of_opt (self_model self)),
       (ascii ''temperature'', self_temperature self),
       (ascii ''messages'',
        PList [PDict [(ascii ''role'', PStr (ascii ''system'')),
                      (ascii ''content'', of_opt (self_system_prompt self))],
               PDict [(ascii ''role'', PStr (ascii ''user'')),
                      (ascii ''content'',
                       PStr ((user_content_70 @ user_content_71 @ user_content_72 @
                              user_content_73 @ user_content_74) @ dumped))]])])"
    using assms by (simp add: build_payload_def)
  then show ?thesis by (rule exI)
qed

theorem build_payload_shape_witness:
  "json_dumps (example_env (Inr great_flat_response)) False example_expose =
     Inr example_dumped \<and>
   (\<exists>instruction.
      build_payload example_formatter (example_env (Inr great_flat_response)) example_expose =
      Inr (PDict
        [(ascii ''model'', PStr (ascii ''gpt-4o-mini'')),
         (ascii ''temperature'', PFloat (Finite (1 / 2))),
         (ascii ''messages'',
          PList [PDict [(ascii ''role'', PStr (ascii ''system'')),
                        (ascii ''content'', PStr (ascii ''S''))],
                 PDict [(ascii ''role'', PStr (ascii ''user'')),
                        (ascii ''content'', PStr (instruction @ example_dumped))]])]))"
  using build_payload_shape [OF example_dumps [of "Inr great_flat_response"],
    of example_formatter]
  by (simp add: example_dumps example_formatter_def)

text \<open>
  Claim C7. With the gate true, a call of \<open>format\<close> sends at most one POST; the request
  goes to the configured \<^verbatim>\<open>api_base\<close> without its trailing slashes followed by
  \<^verbatim>\<open>/chat/completions\<close>, has the headers \<^verbatim>\<open>Authorization: Bearer <api_key>\<close> and
  \<^verbatim>\<open>Content-Type: application/json\<close>, the configured timeout and the built payload as
  its JSON body.
\<close>

theorem format_single_post:
  assumes "should_use_gpt self"
  shows "length (filter is_HttpPost (snd (format self env expose fallback))) \<le> 1 \<and>
    (\<forall>req. HttpPost req \<in> set (snd (format self env expose fallback)) \<longrightarrow>
       (\<exists>base key. self_api_base self = Some base \<and> self_api_key self = Some key \<and>
          url req = rstrip (ascii ''/'') base @ ascii ''/chat/completions'' \<and>
          headers req = [(ascii ''Authorization'', ascii ''Bearer '' @ key),
                         (ascii ''Content-Type'', ascii ''application/json'')]) \<and>
       timeout req = self_timeout self \<and>
       build_payload self env expose = Inr (json req))"
proof -
  obtain logs where logs: "list_all is_LogWarning logs"
    and evs: "snd (format self env expose fallback) =
      (case format_request self env expose of Inl e \<Rightarrow> logs | Inr req \<Rightarrow> HttpPost req # logs)"
    using format_events [OF assms, of env expose fallback] by blast
  from assms obtain key where key: "self_api_key self = Some key"
    by (auto simp: should_use_gpt_iff)
  show ?thesis
  proof (cases "format_request self env expose")
    case (Inl e)
    with evs logs show ?thesis
      by (simp add: filter_LogWarning LogWarning_no_post)
  next
    case (Inr req)
    with evs have evs': "snd (format self env expose fallback) = HttpPost req # logs"
      by simp
    have one: "length (filter is_HttpPost (HttpPost req # logs)) \<le> 1"
      using logs by (simp add: filter_LogWarning)
    have only: "r = req" if "HttpPost r \<in> set (HttpPost req # logs)" for r
      using that logs LogWarning_no_post [of logs r] by simp
    obtain base where base: "self_api_base self = Some base"
      "url req = rstrip (ascii ''/'') base @ ascii ''/chat/completions''"
      using format_request_fields [OF Inr] by blast
    have hdrs: "headers req = [(ascii ''Authorization'', ascii ''Bearer '' @ key),
                         (ascii ''Content-Type'', ascii ''application/json'')]"
      using format_request_fields [OF Inr] key by simp
    have rest: "timeout req = self_timeout self" "build_payload self env expose = Inr (json req)"
      using format_request_fields [OF Inr] by simp_all
    show ?thesis
      unfolding evs'
    proof (intro conjI allI impI)
      show "length (filter is_HttpPost (HttpPost req # logs)) \<le> 1" by (rule one)
    next
      fix r assume "HttpPost r \<in> set (HttpPost req # logs)"
      then have "r = req" by (rule only)
      with base key hdrs
      show "\<exists>base key. self_api_base self = Some base \<and> self_api_key self = Some key \<and>
          url r = rstrip (ascii ''/'') base @ ascii ''/chat/completions'' \<and>
          headers r = [(ascii ''Authorization'', ascii ''Bearer '' @ key),
                       (ascii ''Content-Type'', ascii ''application/json'')]"
        by simp
    next
      fix r assume "HttpPost r \<in> set (HttpPost req # logs)"
      then have "r = req" by (rule only)
      with rest show "timeout r = self_timeout self" by simp
    next
      fix r assume "HttpPost r \<in> set (HttpPost req # logs)"
      then have "r = req" by (rule only)
      with rest show "build_payload self env expose = Inr (json r)" by simp
    qed
  qed
qed

theorem format_single_post_witness:
  "should_use_gpt example_formatter \<and>
   snd (format example_formatter (example_env (Inr server_error_response)) example_expose
     (ascii ''fallback'')) =
   [HttpPost example_request,
    LogWarning (ascii ''GPT API returned %s: %s'')
      [PInt 500, PStr (ascii ''Internal Server Error'')] None] \<and>
   url example_request = ascii ''https://api.openai.com/v1/chat/completions'' \<and>
   headers example_request =
     [(ascii ''Authorization'', ascii ''Bearer sk-test''),
      (ascii ''Content-Type'', ascii ''application/json'')] \<and>
   timeout example_request = PInt 30"
proof -
  let ?evs = "snd (format example_formatter (example_env (Inr server_error_response))
    example_expose (ascii ''fallback''))"
  have evs: "?evs =
    [HttpPost example_request,
     LogWarning (ascii ''GPT API returned %s: %s'')
       [PInt 500, PStr (ascii ''Internal Server Error'')] None]"
    by (simp add: format_post_returns [OF example_gate example_format_request example_post]
        format_response_def server_error_response_def)
  then have sent: "HttpPost example_request \<in> set ?evs" by simp
  have "(\<exists>base key. self_api_base example_formatter = Some base \<and>
          self_api_key example_formatter = Some key \<and>
          url example_request = rstrip (ascii ''/'') base @ ascii ''/chat/completions'' \<and>
          headers example_request = [(ascii ''Authorization'', ascii ''Bearer '' @ key),
                         (ascii ''Content-Type'', ascii ''application/json'')]) \<and>
       timeout example_request = self_timeout example_formatter"
    using format_single_post [OF example_gate,
      of "example_env (Inr server_error_response)" example_expose "ascii ''fallback''"] sent
    by blast
  then have "url example_request = ascii ''https://api.openai.com/v1/chat/completions'' \<and>
    headers example_request =
      [(ascii ''Authorization'', ascii ''Bearer sk-test''),
       (ascii ''Content-Type'', ascii ''application/json'')] \<and>
    timeout example_request = PInt 30"
    by (auto simp: example_formatter_def rstrip_def ascii_def)
  with evs example_gate show ?thesis by simp
qed

text \<open>
  Claim C8. \<open>enabled\<close> is true if and only if the gate holds: the enabled flag is true,
  the API key is a non-empty string and the model name is a non-empty string. It reads
  the formatter only and returns a truth value only.
\<close>

theorem enabled_iff_gate:
  "enabled self \<longleftrightarrow>
     self_enabled self \<and> (\<exists>k. self_api_key self = Some k \<and> k \<noteq> []) \<and>
     (\<exists>m. self_model self = Some m \<and> m \<noteq> [])"
  by (simp add: enabled_def should_use_gpt_iff)

theorem enabled_iff_gate_witness:
  "enabled example_formatter \<and> \<not> enabled (example_formatter\<lparr>self_enabled := False\<rparr>) \<and>
   \<not> enabled (example_formatter\<lparr>self_api_key := None\<rparr>) \<and>
   \<not> enabled (example_formatter\<lparr>self_model := Some []\<rparr>)"
  using enabled_iff_gate [of example_formatter]
    enabled_iff_gate [of "example_formatter\<lparr>self_enabled := False\<rparr>"]
    enabled_iff_gate [of "example_formatter\<lparr>self_api_key := None\<rparr>"]
    enabled_iff_gate [of "example_formatter\<lparr>self_model := Some []\<rparr>"]
  by (simp add: example_formatter_def ascii_def)

text \<open>
  Claim C9. Two calls of \<open>format\<close> on the same formatter with the same expose and
  fallback, in two environments that serialize the expose alike and answer the request
  sent alike, return the same string (or raise the same exception) and leave the same
  events. A call does not change the formatter.
\<close>

theorem format_deterministic:
  assumes "json_dumps env1 False expose = json_dumps env2 False expose"
    and "\<forall>req. format_request self env1 expose = Inr req \<longrightarrow>
           requests_post env1 req = requests_post env2 req"
  shows "format self env1 expose fallback = format self env2 expose fallback"
proof -
  from assms(1) have "build_payload self env1 expose = build_payload self env2 expose"
    by (simp add: build_payload_def)
  then have req: "format_request self env1 expose = format_request self env2 expose"
    by (simp add: format_request_def)
  with assms(2) have "format_try self env1 expose fallback = format_try self env2 expose fallback"
    by (simp add: format_try_def split: sum.splits)
  then show ?thesis by (simp add: format_def)
qed

theorem format_deterministic_witness:
  "format example_formatter (example_env (Inr great_flat_response)) example_expose
     (ascii ''fallback'') =
   format example_formatter (example_env_again (Inr great_flat_response)) example_expose
     (ascii ''fallback'') \<and>
   example_env (Inr great_flat_response) \<noteq> example_env_again (Inr great_flat_response)"
proof -
  have differ: "example_env (Inr great_flat_response) \<noteq>
    example_env_again (Inr great_flat_response)"
  proof
    assume "example_env (Inr great_flat_response) = example_env_again (Inr great_flat_response)"
    then have "json_dumps (example_env (Inr great_flat_response)) True example_expose =
      json_dumps (example_env_again (Inr great_flat_response)) True example_expose"
      by simp
    then show False by (simp add: example_env_def example_env_again_def)
  qed
  have dumps: "json_dumps (example_env (Inr great_flat_response)) False example_expose =
    json_dumps (example_env_again (Inr great_flat_response)) False example_expose"
    by (simp add: example_env_again_def)
  have post: "\<forall>req. format_request example_formatter (example_env (Inr great_flat_response))
      example_expose = Inr req \<longrightarrow>
    requests_post (example_env (Inr great_flat_response)) req =
    requests_post (example_env_again (Inr great_flat_response)) req"
    by (simp add: example_format_request example_post) (simp add: example_env_again_def)
  from format_deterministic [OF dumps post, of "ascii ''fallback''"] differ
  show ?thesis by simp
qed



end
